theory Spec2Isabelle
  imports Main
begin

section \<open>JavaScript strings\<close>

text \<open>
  Strings are lists of 8-bit code units. \<open>js_whitespace\<close> lists the code units that
  \<open>String.prototype.trim\<close> strips (tab, line feed, vertical tab, form feed, carriage
  return, space, no-break space); the whitespace of JavaScript beyond U+00FF has no
  \<open>char\<close>.
\<close>

definition js_whitespace :: "char \<Rightarrow> bool" where
  "js_whitespace c = (of_char c \<in> {9, 10, 11, 12, 13, 32, 160 :: nat})"

definition trim :: "string \<Rightarrow> string" where
  "trim s = rev (dropWhile js_whitespace (rev (dropWhile js_whitespace s)))"

text \<open>\<open>!s?.trim()\<close> for a string \<open>s\<close>: the trimmed string is empty.\<close>

definition blank :: "string \<Rightarrow> bool" where
  "blank s = (trim s = [])"

definition lower_char :: "char \<Rightarrow> char" where
  "lower_char c =
     (let n = (of_char c :: nat) in
      if (65 \<le> n \<and> n \<le> 90) \<or> (192 \<le> n \<and> n \<le> 222 \<and> n \<noteq> 215)
      then char_of (n + 32) else c)"

definition toLowerCase :: "string \<Rightarrow> string" where
  "toLowerCase s = map lower_char s"

text \<open>\<open>s.includes(p)\<close>: \<open>p\<close> occurs in \<open>s\<close> as a contiguous substring.\<close>

fun str_includes :: "string \<Rightarrow> string \<Rightarrow> bool" where
  "str_includes [] p = (p = [])"
| "str_includes (c # cs) p = (take (length p) (c # cs) = p \<or> str_includes cs p)"

text \<open>\<open>!x\<close> for an \<open>x\<close> that is a string or \<open>undefined\<close>, and its value as a string.\<close>

fun unset :: "string option \<Rightarrow> bool" where
  "unset None = True"
| "unset (Some s) = (s = [])"

fun setting :: "string option \<Rightarrow> string" where
  "setting None = []"
| "setting (Some s) = s"

section \<open>Thrown values and the error classes\<close>

text \<open>
  The classes of \<open>EthereumLedgerService.ts\<close> and \<open>EthereumSchemaRegistry.types.ts\<close>,
  the framework's \<open>CredoError\<close> and \<open>WalletError\<close>, the built-in \<open>Error\<close> and
  \<open>TypeError\<close>, and \<open>Foreign n\<close> for any other subclass of \<open>Error\<close> whose
  \<open>name\<close> is \<open>n\<close> (a provider or HTTP client error).
\<close>

datatype error_class =
    Error
  | TypeError
  | CredoError
  | WalletError
  | EthereumLedgerError
  | SchemaCreationError
  | SchemaRetrievalError
  | SchemaRegistryError
  | ContractError
  | NetworkError
  | ValidationError
  | Foreign string

text \<open>
  A thrown value is an \<open>Error\<close> object with the properties the code reads or writes
  (\<open>message\<close>, \<open>cause\<close>, \<open>originalError\<close>, \<open>code\<close>, \<open>reason\<close>, \<open>revertReason\<close>),
  or a value that is not an \<open>Error\<close>, kept as its string form.
\<close>

datatype thrown =
    ErrorObj error_class string "thrown option" "thrown option"
             "string option" "string option" "string option"
  | NonError string

fun cls_of :: "thrown \<Rightarrow> error_class option" where
  "cls_of (ErrorObj c m ca oe co re rr) = Some c"
| "cls_of (NonError s) = None"

fun message_of :: "thrown \<Rightarrow> string option" where
  "message_of (ErrorObj c m ca oe co re rr) = Some m"
| "message_of (NonError s) = None"

fun cause_of :: "thrown \<Rightarrow> thrown option" where
  "cause_of (ErrorObj c m ca oe co re rr) = ca"
| "cause_of (NonError s) = None"

fun originalError_of :: "thrown \<Rightarrow> thrown option" where
  "originalError_of (ErrorObj c m ca oe co re rr) = oe"
| "originalError_of (NonError s) = None"

fun code_of :: "thrown \<Rightarrow> string option" where
  "code_of (ErrorObj c m ca oe co re rr) = co"
| "code_of (NonError s) = None"

fun reason_of :: "thrown \<Rightarrow> string option" where
  "reason_of (ErrorObj c m ca oe co re rr) = re"
| "reason_of (NonError s) = None"

fun revertReason_of :: "thrown \<Rightarrow> string option" where
  "revertReason_of (ErrorObj c m ca oe co re rr) = rr"
| "revertReason_of (NonError s) = None"

text \<open>The \<open>name\<close> property each constructor sets.\<close>

fun name_of :: "error_class \<Rightarrow> string" where
  "name_of Error = ''Error''"
| "name_of TypeError = ''TypeError''"
| "name_of CredoError = ''CredoError''"
| "name_of WalletError = ''WalletError''"
| "name_of EthereumLedgerError = ''EthereumLedgerError''"
| "name_of SchemaCreationError = ''SchemaCreationError''"
| "name_of SchemaRetrievalError = ''SchemaRetrievalError''"
| "name_of SchemaRegistryError = ''SchemaRegistryError''"
| "name_of ContractError = ''ContractError''"
| "name_of NetworkError = ''NetworkError''"
| "name_of ValidationError = ''ValidationError''"
| "name_of (Foreign n) = n"

text \<open>
  \<open>String(error)\<close>, which a template literal \<open>${error}\<close> applies:
  \<open>Error.prototype.toString\<close> for an \<open>Error\<close>, the string form otherwise.
\<close>

fun toString :: "thrown \<Rightarrow> string" where
  "toString (ErrorObj c m ca oe co re rr) =
     (if name_of c = [] then m
      else if m = [] then name_of c
      else name_of c @ '': '' @ m)"
| "toString (NonError s) = s"

text \<open>\<open>error instanceof Error\<close> and \<open>error instanceof EthereumLedgerError\<close>.\<close>

fun instanceof_Error :: "thrown \<Rightarrow> bool" where
  "instanceof_Error (ErrorObj c m ca oe co re rr) = True"
| "instanceof_Error (NonError s) = False"

fun extends_EthereumLedgerError :: "error_class \<Rightarrow> bool" where
  "extends_EthereumLedgerError EthereumLedgerError = True"
| "extends_EthereumLedgerError SchemaCreationError = True"
| "extends_EthereumLedgerError SchemaRetrievalError = True"
| "extends_EthereumLedgerError c = False"

fun instanceof_EthereumLedgerError :: "thrown \<Rightarrow> bool" where
  "instanceof_EthereumLedgerError (ErrorObj c m ca oe co re rr) = extends_EthereumLedgerError c"
| "instanceof_EthereumLedgerError (NonError s) = False"

text \<open>The constructors of the error classes, as the source writes them.\<close>

definition new_Error :: "string \<Rightarrow> thrown" where
  "new_Error m = ErrorObj Error m None None None None None"

definition new_TypeError :: "string \<Rightarrow> thrown" where
  "new_TypeError m = ErrorObj TypeError m None None None None None"

definition new_CredoError :: "string \<Rightarrow> thrown" where
  "new_CredoError m = ErrorObj CredoError m None None None None None"

definition new_WalletError :: "string \<Rightarrow> thrown" where
  "new_WalletError m = ErrorObj WalletError m None None None None None"

definition new_SchemaCreationError :: "string \<Rightarrow> thrown option \<Rightarrow> thrown" where
  "new_SchemaCreationError reason ca =
     ErrorObj SchemaCreationError (''Schema creation failed. Reason: '' @ reason) ca
       None None None None"

definition new_SchemaRetrievalError :: "string \<Rightarrow> string \<Rightarrow> thrown option \<Rightarrow> thrown" where
  "new_SchemaRetrievalError schemaId reason ca =
     ErrorObj SchemaRetrievalError
       (''Schema retrieval failed for Schema ID: '' @ schemaId @ ''. Reason: '' @ reason) ca
       None None None None"

definition new_ContractError :: "string \<Rightarrow> string option \<Rightarrow> thrown option \<Rightarrow> thrown" where
  "new_ContractError m rr oe = ErrorObj ContractError m None oe (Some ''CONTRACT_ERROR'') None rr"

definition new_NetworkError :: "string \<Rightarrow> thrown option \<Rightarrow> thrown" where
  "new_NetworkError m oe = ErrorObj NetworkError m None oe (Some ''NETWORK_ERROR'') None None"

definition new_ValidationError :: "string \<Rightarrow> thrown" where
  "new_ValidationError m = ErrorObj ValidationError m None None (Some ''VALIDATION_ERROR'') None None"

section \<open>DID documents and the resolver adapter\<close>

datatype context_value = CtxString string | CtxArray "string list"

record verification_method =
  vm_id :: string
  publicKeyHex :: "string option"
  blockchainAccountId :: "string option"

record did_document =
  at_context :: "context_value option"
  doc_id :: string
  verificationMethod :: "verification_method list option"

type_synonym metadata = "(string \<times> string) list"

record did_resolution_result =
  didDocument :: "did_document option"
  didDocumentMetadata :: metadata
  didResolutionMetadata :: metadata

text \<open>
  What the adapter calls and does not own: the lookup of the ledger service in the
  dependency container (\<open>None\<close>: the service is found), the service's \<open>resolveDID\<close>,
  which hands the DID to the resolution library, and \<open>JsonTransformer.fromJSON\<close>, which
  builds the framework's document from the JSON one and rejects a malformed document
  (\<open>Some e\<close>: it throws \<open>e\<close>).
\<close>

record resolver_env =
  dependencyManager_resolve :: "thrown option"
  resolveDID :: "string \<Rightarrow> thrown + did_resolution_result"
  fromJSON_throws :: "did_document option \<Rightarrow> thrown option"

definition unstable_context :: string where
  "unstable_context = ''https://w3id.org/security/v3-unstable''"

definition secp256k1_context :: string where
  "secp256k1_context = ''https://w3id.org/security/suites/secp256k1-2019/v1''"

text \<open>Lines 26 to 34 of \<open>EthrDidResolver.ts\<close>: the rewrite of an array-valued \<open>@context\<close>.\<close>

definition normalize_context_list :: "string list \<Rightarrow> string list" where
  "normalize_context_list xs =
     (let ys = filter (\<lambda>ctx. ctx \<noteq> unstable_context) xs
      in if secp256k1_context \<in> set ys then ys else ys @ [secp256k1_context])"

definition normalize_document :: "did_document option \<Rightarrow> did_document option" where
  "normalize_document doc =
     (case doc of
        None \<Rightarrow> None
      | Some d \<Rightarrow>
          (case at_context d of
             Some (CtxArray xs) \<Rightarrow> Some (d\<lparr>at_context := Some (CtxArray (normalize_context_list xs))\<rparr>)
           | Some (CtxString s) \<Rightarrow> Some d
           | None \<Rightarrow> Some d))"

definition resolver_error_result :: "string \<Rightarrow> thrown \<Rightarrow> did_resolution_result" where
  "resolver_error_result did e =
     \<lparr>didDocument = None,
      didDocumentMetadata = [],
      didResolutionMetadata =
        [(''error'', ''notFound''),
         (''message'',
          ''resolver_error: Unable to resolve did '' @ [CHR 0x27] @ did @ [CHR 0x27] @ '': ''
            @ toString e)]\<rparr>"

text \<open>
  \<open>EthereumDidResolver.resolve\<close>. The lookup of the ledger service stands before the
  \<open>try\<close>; everything after it is inside.
\<close>

definition resolve :: "resolver_env \<Rightarrow> string \<Rightarrow> thrown + did_resolution_result" where
  "resolve env did =
     (case dependencyManager_resolve env of
        Some e \<Rightarrow> Inl e
      | None \<Rightarrow>
          (case resolveDID env did of
             Inl e \<Rightarrow> Inr (resolver_error_result did e)
           | Inr r \<Rightarrow>
               (let doc = normalize_document (didDocument r) in
                case fromJSON_throws env doc of
                  Some e \<Rightarrow> Inr (resolver_error_result did e)
                | None \<Rightarrow>
                    Inr \<lparr>didDocument = doc,
                         didDocumentMetadata = didDocumentMetadata r,
                         didResolutionMetadata = didResolutionMetadata r\<rparr>)))"

section \<open>Schema bodies\<close>

text \<open>
  The \<open>schema\<close> argument is a JavaScript value. A number is kept as the string that
  \<open>Number.prototype.toString\<close> gives for it; an object is the list of its own
  enumerable properties in insertion order.
\<close>

datatype js_value =
    JNull
  | JBool bool
  | JNum string
  | JStr string
  | JArr "js_value list"
  | JObj "(string \<times> js_value) list"

fun intercalate :: "string \<Rightarrow> string list \<Rightarrow> string" where
  "intercalate sep [] = []"
| "intercalate sep [x] = x"
| "intercalate sep (x # y # ys) = x @ sep @ intercalate sep (y # ys)"

text \<open>
  \<open>String(v)\<close>. For an object it asks the object for \<open>toString\<close>: a plain object
  without an own property of that name inherits \<open>Object.prototype.toString\<close> and
  prints as \<open>[object Object]\<close>; with an own property \<open>toString\<close>, whose value here is
  never a function, no method gives a primitive and the conversion throws a
  \<open>TypeError\<close>. An array prints through \<open>Array.prototype.join\<close>, where \<open>null\<close> is
  the empty string and every other element is converted in the same way, so a failing
  element makes the whole conversion fail.
\<close>

fun js_String :: "js_value \<Rightarrow> thrown + string"
  and join_elements :: "js_value list \<Rightarrow> thrown + string list" where
  "js_String JNull = Inr ''null''"
| "js_String (JBool b) = Inr (if b then ''true'' else ''false'')"
| "js_String (JNum n) = Inr n"
| "js_String (JStr s) = Inr s"
| "js_String (JArr xs) =
     (case join_elements xs of
        Inl e \<Rightarrow> Inl e
      | Inr parts \<Rightarrow> Inr (intercalate '','' parts))"
| "js_String (JObj kvs) =
     (if ''toString'' \<in> set (map fst kvs)
      then Inl (new_TypeError ''Cannot convert object to primitive value'')
      else Inr ''[object Object]'')"
| "join_elements [] = Inr []"
| "join_elements (x # xs) =
     (case (if x = JNull then Inr [] else js_String x) of
        Inl e \<Rightarrow> Inl e
      | Inr part \<Rightarrow>
          (case join_elements xs of
             Inl e \<Rightarrow> Inl e
           | Inr parts \<Rightarrow> Inr (part # parts)))"

fun js_truthy :: "js_value \<Rightarrow> bool" where
  "js_truthy JNull = False"
| "js_truthy (JBool b) = b"
| "js_truthy (JNum n) = (n \<noteq> ''0'' \<and> n \<noteq> ''NaN'')"
| "js_truthy (JStr s) = (s \<noteq> [])"
| "js_truthy (JArr xs) = True"
| "js_truthy (JObj kvs) = True"

text \<open>\<open>Object.keys(v).length\<close>; \<open>Object.keys(null)\<close> throws a \<open>TypeError\<close>.\<close>

fun Object_keys_length :: "js_value \<Rightarrow> thrown + nat" where
  "Object_keys_length JNull = Inl (new_TypeError ''Cannot convert undefined or null to object'')"
| "Object_keys_length (JBool b) = Inr 0"
| "Object_keys_length (JNum n) = Inr 0"
| "Object_keys_length (JStr s) = Inr (length s)"
| "Object_keys_length (JArr xs) = Inr (length xs)"
| "Object_keys_length (JObj kvs) = Inr (length kvs)"

section \<open>The outside world\<close>

type_synonym bytes = "nat list"

datatype signing_key = SigningKey bytes

record receipt =
  hash :: string

record key_entry =
  secretBytes :: bytes

record did_record =
  record_didDocument :: "did_document option"

record http_request =
  http_method :: string
  http_url :: string
  http_headers :: "(string \<times> string) list"
  http_data :: string

record http_response =
  http_status :: nat
  http_body :: string

datatype log_level = Info | Warn | LogError

text \<open>What a call does to the outside, in the order it does it.\<close>

datatype event =
    Log log_level string
  | ContractCall string "string list"
  | HttpRequest http_request

text \<open>
  The collaborators the repository calls and does not own, as the outcome each gives
  (\<open>Inl\<close>: it throws or rejects):
  \<^item> \<open>ethers\<close>: \<open>isAddress\<close>; the construction of provider, wallet and contract; the
    contract's \<open>createSchema\<close> transaction with its \<open>wait()\<close> (\<open>None\<close>: no receipt); the
    contract's \<open>schemas\<close> getter; the \<open>SigningKey\<close> constructor;
  \<^item> the language and its libraries: \<open>JSON.parse\<close>, \<open>JSON.stringify\<close>, \<open>keccak256\<close>
    with its hex encoding, the clock, the HTTP transport under \<open>axios\<close>;
  \<^item> the agent framework: \<open>utils.uuid\<close>, the DID repository, the wallet and its key
    store, \<open>TypedArrayEncoder\<close>;
  \<^item> \<open>getPreferredKey\<close> and \<open>parseAddress\<close> of \<open>utils/utils.ts\<close>, which is not among
    the sources.
\<close>

record world =
  isAddress :: "string \<Rightarrow> bool"
  provider_throws :: "string \<Rightarrow> string \<Rightarrow> thrown option"
  contract_createSchema :: "string \<Rightarrow> string \<Rightarrow> thrown + receipt option"
  contract_schemas :: "string \<Rightarrow> string \<Rightarrow> thrown + string"
  new_SigningKey :: "bytes \<Rightarrow> thrown + signing_key"
  JSON_parse :: "string \<Rightarrow> thrown + js_value"
  JSON_stringify :: "js_value \<Rightarrow> string"
  keccak256_hex :: "string \<Rightarrow> string"
  Date_toISOString :: string
  http_send :: "http_request \<Rightarrow> thrown + http_response"
  uuid :: string
  findCreatedDid :: "string \<Rightarrow> thrown + did_record option"
  wallet_is_askar :: bool
  fetchKey :: "string \<Rightarrow> thrown + key_entry option"
  fromHex :: "string \<Rightarrow> bytes"
  toBase58 :: "bytes \<Rightarrow> string"
  getPreferredKey :: "verification_method list \<Rightarrow> thrown + string"
  parseAddress :: "string \<Rightarrow> thrown + string"

section \<open>The resource builders of \<open>schemaHelper.ts\<close>\<close>

record ResourcePayload =
  resourceURI :: string
  resourceCollectionId :: string
  resourceId :: string
  resourceName :: string
  resourceType :: string
  mediaType :: string
  created :: string
  checksum :: string
  previousVersionId :: string
  nextVersionId :: string

definition buildSchemaResource ::
  "world \<Rightarrow> string \<Rightarrow> string \<Rightarrow> string \<Rightarrow> js_value \<Rightarrow> string \<Rightarrow> thrown + ResourcePayload" where
  "buildSchemaResource w did schemaId name schema address =
     (case js_String schema of
        Inl e \<Rightarrow> Inl e
      | Inr str \<Rightarrow>
          (let sum = keccak256_hex w str in
           if sum = [] then Inl (new_Error ''Error while calculating checksum!'')
           else Inr \<lparr>resourceURI = did @ ''/resources/'' @ schemaId,
                     resourceCollectionId = address,
                     resourceId = schemaId,
                     resourceName = name,
                     resourceType = ''W3C-schema'',
                     mediaType = [],
                     created = Date_toISOString w,
                     checksum = sum,
                     previousVersionId = [],
                     nextVersionId = []\<rparr>))"

text \<open>The object \<open>JSON.stringify\<close> receives for a resource payload.\<close>

definition resource_object :: "ResourcePayload \<Rightarrow> js_value" where
  "resource_object r =
     JObj [(''resourceURI'', JStr (resourceURI r)),
           (''resourceCollectionId'', JStr (resourceCollectionId r)),
           (''resourceId'', JStr (resourceId r)),
           (''resourceName'', JStr (resourceName r)),
           (''resourceType'', JStr (resourceType r)),
           (''mediaType'', JStr (mediaType r)),
           (''created'', JStr (created r)),
           (''checksum'', JStr (checksum r)),
           (''previousVersionId'', JStr (previousVersionId r)),
           (''nextVersionId'', JStr (nextVersionId r))]"

fun digits :: "nat \<Rightarrow> string" where
  "digits n = (if n < 10 then [char_of (48 + n)] else digits (n div 10) @ [char_of (48 + n mod 10)])"

text \<open>
  \<open>axios(options)\<close> with the library's default \<open>validateStatus\<close>: a transport failure
  rejects with that failure, a response outside 200 to 299 rejects with an
  \<open>AxiosError\<close>.
\<close>

definition axios :: "world \<Rightarrow> http_request \<Rightarrow> thrown + http_response" where
  "axios w req =
     (case http_send w req of
        Inl e \<Rightarrow> Inl e
      | Inr resp \<Rightarrow>
          if 200 \<le> http_status resp \<and> http_status resp < 300 then Inr resp
          else Inl (ErrorObj (Foreign ''AxiosError'')
                      (''Request failed with status code '' @ digits (http_status resp))
                      None None (Some ''ERR_BAD_RESPONSE'') None None))"

definition upload_request :: "world \<Rightarrow> string \<Rightarrow> js_value \<Rightarrow> string \<Rightarrow> string \<Rightarrow> http_request" where
  "upload_request w schemaId schema fileServerUrl fileServerToken =
     \<lparr>http_method = ''post'',
      http_url = fileServerUrl @ ''/schemas'',
      http_headers = [(''Content-Type'', ''application/json''),
                      (''Authorization'', ''Bearer '' @ fileServerToken)],
      http_data = JSON_stringify w (JObj [(''schemaId'', JStr schemaId), (''schema'', schema)])\<rparr>"

text \<open>The \<open>try\<close> block of \<open>uploadSchemaFile\<close>.\<close>

definition uploadSchemaFile_try ::
  "world \<Rightarrow> string \<Rightarrow> js_value \<Rightarrow> string \<Rightarrow> string \<Rightarrow> (thrown + http_response) \<times> event list" where
  "uploadSchemaFile_try w schemaId schema fileServerUrl fileServerToken =
     (if schemaId = [] then (Inl (new_Error ''Schema resource id and schema are required!''), [])
      else case Object_keys_length schema of
        Inl e \<Rightarrow> (Inl e, [])
      | Inr n \<Rightarrow>
          if n = 0 then (Inl (new_Error ''Schema resource id and schema are required!''), [])
          else let req = upload_request w schemaId schema fileServerUrl fileServerToken
               in (axios w req, [HttpRequest req]))"

text \<open>
  \<open>uploadSchemaFile\<close>: the \<open>catch\<close> throws a new \<open>Error\<close> built from the message
  alone; the \<open>throw error\<close> after it is never reached.
\<close>

definition uploadSchemaFile ::
  "world \<Rightarrow> string \<Rightarrow> js_value \<Rightarrow> string \<Rightarrow> string \<Rightarrow> (thrown + http_response) \<times> event list" where
  "uploadSchemaFile w schemaId schema fileServerUrl fileServerToken =
     (case uploadSchemaFile_try w schemaId schema fileServerUrl fileServerToken of
        (Inr response, evs) \<Rightarrow> (Inr response, evs)
      | (Inl error, evs) \<Rightarrow>
          (Inl (new_Error (''Error occurred in uploadSchemaFile function '' @ toString error @ '' '')),
           evs))"

declare digits.simps [simp del]

section \<open>The registry client, \<open>EthereumSchemaRegistry\<close>\<close>

record SchemaRegistryConfig =
  contractAddress :: string
  rpcUrl :: string
  signingKey :: "signing_key option"

text \<open>The client after construction: \<open>wallet\<close> is set when a signing key was given.\<close>

record registry =
  wallet :: "signing_key option"
  registry_address :: string

definition validateConfig :: "world \<Rightarrow> SchemaRegistryConfig \<Rightarrow> thrown option" where
  "validateConfig w config =
     (if contractAddress config = [] \<or> \<not> isAddress w (contractAddress config)
      then Some (new_ValidationError ''Invalid contract address'')
      else if rpcUrl config = [] then Some (new_ValidationError ''RPC URL is required'')
      else if signingKey config = None then Some (new_ValidationError ''Signing Key is required'')
      else None)"

definition new_EthereumSchemaRegistry :: "world \<Rightarrow> SchemaRegistryConfig \<Rightarrow> thrown + registry" where
  "new_EthereumSchemaRegistry w config =
     (case validateConfig w config of
        Some e \<Rightarrow> Inl e
      | None \<Rightarrow>
          (case provider_throws w (rpcUrl config) (contractAddress config) of
             Some error \<Rightarrow>
               Inl (new_NetworkError
                      (''Failed to initialize EthereumSchemaManager: '' @
                         (case message_of error of Some m \<Rightarrow> m | None \<Rightarrow> ''Unknown error''))
                      (Some error))
           | None \<Rightarrow> Inr \<lparr>wallet = signingKey config, registry_address = contractAddress config\<rparr>))"

definition validateSchemaId :: "string \<Rightarrow> thrown option" where
  "validateSchemaId schemaId =
     (if schemaId = [] \<or> length (trim schemaId) = 0
      then Some (new_ValidationError ''Schema ID cannot be empty'')
      else if length schemaId > 256
      then Some (new_ValidationError ''Schema ID too long (max 256 characters)'')
      else None)"

definition validateJson :: "world \<Rightarrow> string \<Rightarrow> thrown option" where
  "validateJson w json =
     (if json = [] \<or> length (trim json) = 0
      then Some (new_ValidationError ''JSON cannot be empty'')
      else case JSON_parse w json of
             Inl e \<Rightarrow> Some (new_ValidationError ''Invalid JSON format'')
           | Inr v \<Rightarrow> None)"

definition validateAddress :: "world \<Rightarrow> string \<Rightarrow> thrown option" where
  "validateAddress w address =
     (if address = [] \<or> \<not> isAddress w address
      then Some (new_ValidationError ''Invalid address'')
      else None)"

text \<open>\<open>${error.message}\<close>: a value without the property prints as \<open>undefined\<close>.\<close>

definition message_text :: "thrown \<Rightarrow> string" where
  "message_text error = (case message_of error of Some m \<Rightarrow> m | None \<Rightarrow> ''undefined'')"

text \<open>\<open>handleContractError\<close>: the error it throws for a failure of the contract call.\<close>

definition handleContractError :: "thrown \<Rightarrow> thrown" where
  "handleContractError error =
     (if \<not> unset (reason_of error) then
        (if reason_of error = Some ''SCHEMA_EXISTS''
         then new_ContractError ''Schema already exists for this address and schema ID''
                (reason_of error) (Some error)
         else if reason_of error = Some ''NOT_OWNER''
         then new_ContractError ''Only contract owner can perform this action''
                (reason_of error) (Some error)
         else new_ContractError (''Contract error: '' @ setting (reason_of error))
                (reason_of error) (Some error))
      else if code_of error = Some ''NETWORK_ERROR''
      then new_NetworkError (''Network error: '' @ message_text error) (Some error)
      else new_ContractError (''Transaction failed: '' @ message_text error) None (Some error))"

text \<open>
  The client's \<open>createSchema\<close>, with the contract calls it submits. The validations
  stand before the \<open>try\<close> that holds the contract call.
\<close>

definition registry_createSchema ::
  "world \<Rightarrow> registry \<Rightarrow> string \<Rightarrow> string \<Rightarrow> (thrown + receipt option) \<times> event list" where
  "registry_createSchema w reg schemaId json =
     (if wallet reg = None
      then (Inl (new_ValidationError ''Wallet is required for transaction operations''), [])
      else case validateSchemaId schemaId of
        Some e \<Rightarrow> (Inl e, [])
      | None \<Rightarrow>
          (case validateJson w json of
             Some e \<Rightarrow> (Inl e, [])
           | None \<Rightarrow>
               (case contract_createSchema w schemaId json of
                  Inl error \<Rightarrow> (Inl (handleContractError error),
                                [ContractCall ''createSchema'' [schemaId, json]])
                | Inr schemaTxnReceipt \<Rightarrow> (Inr schemaTxnReceipt,
                                [ContractCall ''createSchema'' [schemaId, json]]))))"

text \<open>
  The client's \<open>getSchema\<close> (the ledger service and the tests call it \<open>getSchemaById\<close>):
  \<open>None\<close> is the \<open>null\<close> it returns for an empty or blank stored value.
\<close>

definition getSchema ::
  "world \<Rightarrow> registry \<Rightarrow> string \<Rightarrow> string \<Rightarrow> (thrown + string option) \<times> event list" where
  "getSchema w reg address schemaId =
     (case validateAddress w address of
        Some e \<Rightarrow> (Inl e, [])
      | None \<Rightarrow>
          (case validateSchemaId schemaId of
             Some e \<Rightarrow> (Inl e, [])
           | None \<Rightarrow>
               (case contract_schemas w address schemaId of
                  Inl error \<Rightarrow> (Inl (handleContractError error),
                                [ContractCall ''schemas'' [address, schemaId]])
                | Inr schema \<Rightarrow>
                    (Inr (if schema = [] \<or> length (trim schema) = 0 then None else Some schema),
                     [ContractCall ''schemas'' [address, schemaId]]))))"

section \<open>The ledger service, \<open>EthereumLedgerService\<close>\<close>

text \<open>The four settings the service copies from the module configuration.\<close>

record ledger_config =
  cfg_rpcUrl :: "string option"
  schemaManagerContractAddress :: "string option"
  fileServerToken :: "string option"
  fileServerUrl :: "string option"

record SchemaCreateOptions =
  did :: string
  schemaName :: string
  schema :: js_value

record SchemaCreationResult =
  result_did :: string
  result_schemaId :: string
  schemaTxnHash :: "string option"

definition has_publicKeyHex :: "verification_method \<Rightarrow> bool" where
  "has_publicKeyHex obj = (case publicKeyHex obj of Some h \<Rightarrow> h \<noteq> [] | None \<Rightarrow> False)"

text \<open>\<open>getPublicKeyFromDid\<close>: the pair \<open>(publicKeyBase58, blockchainAccountId)\<close>.\<close>

definition getPublicKeyFromDid :: "world \<Rightarrow> string \<Rightarrow> thrown + (string \<times> string)" where
  "getPublicKeyFromDid w d =
     (case findCreatedDid w d of
        Inl e \<Rightarrow> Inl e
      | Inr None \<Rightarrow> Inl (new_CredoError ''DidRecord not found'')
      | Inr (Some didRecord) \<Rightarrow>
          (case record_didDocument didRecord of
             None \<Rightarrow> Inl (new_CredoError ''VerificationMethod not found cannot get public key'')
           | Some doc \<Rightarrow>
               (case verificationMethod doc of
                  None \<Rightarrow> Inl (new_CredoError ''VerificationMethod not found cannot get public key'')
                | Some vms \<Rightarrow>
                    (case getPreferredKey w vms of
                       Inl e \<Rightarrow> Inl e
                     | Inr account \<Rightarrow>
                         (case find has_publicKeyHex vms of
                            None \<Rightarrow> Inl (new_CredoError
                                       (''Public Key hex not found in wallet for did: '' @ d))
                          | Some keyObj \<Rightarrow>
                              Inr (toBase58 w (fromHex w (setting (publicKeyHex keyObj))),
                                   account))))))"

definition getSigningKey :: "world \<Rightarrow> string \<Rightarrow> thrown + signing_key" where
  "getSigningKey w publicKeyBase58 =
     (if \<not> wallet_is_askar w
      then Inl (new_CredoError
                 ''Incorrect wallet type: Ethereum Module currently only supports Askar wallet'')
      else case fetchKey w publicKeyBase58 of
             Inl e \<Rightarrow> Inl e
           | Inr None \<Rightarrow> Inl (new_WalletError ''Key not found in wallet'')
           | Inr (Some keyEntry) \<Rightarrow> new_SigningKey w (secretBytes keyEntry))"

text \<open>
  Lines 114 to 146 of \<open>createSchema\<close>: what follows \<open>Promise.allSettled\<close>, given
  the two settled outcomes.
\<close>

definition errMsg :: "thrown \<Rightarrow> string" where
  "errMsg reason =
     toLowerCase (if \<not> unset (message_of reason) then setting (message_of reason)
                  else toString reason)"

definition createSchema_settled ::
  "string \<Rightarrow> string \<Rightarrow> thrown + receipt option \<Rightarrow> thrown + http_response
     \<Rightarrow> (thrown + SchemaCreationResult) \<times> event list" where
  "createSchema_settled d schemaId blockchainResponse uploadResponse =
     (case blockchainResponse of
        Inl reason \<Rightarrow>
          if str_includes (errMsg reason) ''insufficient funds''
             \<or> str_includes (errMsg reason) ''insufficient balance''
          then (Inl (new_SchemaCreationError ''Insufficient funds to pay for gas fees''
                       (Some reason)), [])
          else (Inl (new_SchemaCreationError ''Blockchain transaction failed'' (Some reason)), [])
      | Inr result \<Rightarrow>
          (let warned =
                 (case uploadResponse of
                    Inl reason \<Rightarrow>
                      [Log Warn (''File server upload failed for schema '' @ schemaId @ '': '' @
                         (if \<not> unset (message_of reason) then setting (message_of reason)
                          else ''Unknown error''))]
                  | Inr response \<Rightarrow> [])
           in case result of
                None \<Rightarrow>
                  (Inl (new_TypeError (''Cannot read properties of null (reading '' @ [CHR 0x27]
                          @ ''hash'' @ [CHR 0x27] @ '')'')), warned)
              | Some r \<Rightarrow>
                  if hash r = []
                  then (Inl (new_SchemaCreationError ''Invalid response from blockchain'' None),
                        warned)
                  else (Inr \<lparr>result_did = d, result_schemaId = schemaId,
                              schemaTxnHash = Some (hash r)\<rparr>,
                        warned @ [Log Info (''Successfully created schema on ledger for DID: '' @ d)])))"

text \<open>
  What \<open>createSchema\<close> has in hand when it reaches \<open>Promise.allSettled\<close>: the
  registry client, the fresh schema id and the resource payload.
\<close>

record prepared =
  ethSchemaRegistry :: registry
  prepared_schemaId :: string
  schemaResource :: ResourcePayload

text \<open>Lines 90 to 106 of \<open>createSchema\<close>.\<close>

definition createSchema_prepare ::
  "world \<Rightarrow> ledger_config \<Rightarrow> SchemaCreateOptions \<Rightarrow> thrown + prepared" where
  "createSchema_prepare w cfg opts =
     (case getPublicKeyFromDid w (did opts) of
        Inl e \<Rightarrow> Inl e
      | Inr (publicKeyBase58, account) \<Rightarrow>
          if publicKeyBase58 = [] then Inl (new_CredoError ''Public Key not found in wallet'')
          else
            (case getSigningKey w publicKeyBase58 of
               Inl e \<Rightarrow> Inl e
             | Inr key \<Rightarrow>
                 (case new_EthereumSchemaRegistry w
                         \<lparr>contractAddress = setting (schemaManagerContractAddress cfg),
                          rpcUrl = setting (cfg_rpcUrl cfg),
                          signingKey = Some key\<rparr> of
                    Inl e \<Rightarrow> Inl e
                  | Inr reg \<Rightarrow>
                      (case parseAddress w account of
                         Inl e \<Rightarrow> Inl e
                       | Inr address \<Rightarrow>
                           (case buildSchemaResource w (did opts) (uuid w) (schemaName opts)
                                   (schema opts) address of
                              Inl e \<Rightarrow> Inl e
                            | Inr resource \<Rightarrow>
                                Inr \<lparr>ethSchemaRegistry = reg, prepared_schemaId = uuid w,
                                     schemaResource = resource\<rparr>)))))"

text \<open>
  The \<open>try\<close> block of \<open>createSchema\<close>. Both calls are started before either settles:
  the contract call first, the upload second.
\<close>

definition createSchema_try ::
  "world \<Rightarrow> ledger_config \<Rightarrow> SchemaCreateOptions \<Rightarrow> (thrown + SchemaCreationResult) \<times> event list" where
  "createSchema_try w cfg opts =
     (case createSchema_prepare w cfg opts of
        Inl e \<Rightarrow> (Inl e, [])
      | Inr p \<Rightarrow>
          (let chain = registry_createSchema w (ethSchemaRegistry p) (prepared_schemaId p)
                         (JSON_stringify w (resource_object (schemaResource p)));
               upload = uploadSchemaFile w (prepared_schemaId p) (schema opts)
                          (setting (fileServerUrl cfg)) (setting (fileServerToken cfg));
               settled = createSchema_settled (did opts) (prepared_schemaId p) (fst chain) (fst upload)
           in (fst settled, snd chain @ snd upload @ snd settled)))"

text \<open>The \<open>catch\<close> of \<open>createSchema\<close>: the error it throws, and what it logs.\<close>

definition createSchema_catch :: "string \<Rightarrow> thrown \<Rightarrow> thrown \<times> event list" where
  "createSchema_catch d error =
     (if instanceof_EthereumLedgerError error then (error, [])
      else (new_SchemaCreationError
              (case message_of error of Some m \<Rightarrow> m | None \<Rightarrow> ''Unknown error occurred'')
              (if instanceof_Error error then Some error else None),
            [Log LogError (''Schema creation failed for DID: '' @ d)]))"

text \<open>\<open>!schema || Object.keys(schema).length === 0\<close>.\<close>

definition schema_empty :: "js_value \<Rightarrow> bool" where
  "schema_empty v = (\<not> js_truthy v \<or> Object_keys_length v = Inr 0)"

definition createSchema ::
  "world \<Rightarrow> ledger_config \<Rightarrow> SchemaCreateOptions \<Rightarrow> (thrown + SchemaCreationResult) \<times> event list" where
  "createSchema w cfg opts =
     (if unset (schemaManagerContractAddress cfg) \<or> unset (cfg_rpcUrl cfg)
         \<or> unset (fileServerUrl cfg) \<or> unset (fileServerToken cfg)
      then (Inl (new_SchemaCreationError
        ''schemaManagerContractAddress, rpcUrl, fileServeUrl and fileServerToken must be defined and not empty''
        None), [])
      else if blank (did opts)
      then (Inl (new_SchemaCreationError ''DID is required and cannot be empty'' None), [])
      else if blank (schemaName opts)
      then (Inl (new_SchemaCreationError ''Schema name is required and cannot be empty'' None), [])
      else if schema_empty (schema opts)
      then (Inl (new_SchemaCreationError ''Schema must be a valid object and not empty'' None), [])
      else case createSchema_try w cfg opts of
        (Inr response, evs) \<Rightarrow>
          (Inr response, Log Info (''Creating schema on ledger: '' @ did opts) # evs)
      | (Inl error, evs) \<Rightarrow>
          (Inl (fst (createSchema_catch (did opts) error)),
           Log Info (''Creating schema on ledger: '' @ did opts) # evs
             @ snd (createSchema_catch (did opts) error)))"

text \<open>
  The \<open>try\<close> block of \<open>getSchemaByDidAndSchemaId\<close>. The registry client is built
  from the contract address and the RPC URL alone, without a signing key.
\<close>

definition getSchemaByDidAndSchemaId_try ::
  "world \<Rightarrow> ledger_config \<Rightarrow> string \<Rightarrow> string \<Rightarrow> (thrown + string) \<times> event list" where
  "getSchemaByDidAndSchemaId_try w cfg d schemaId =
     (if unset (schemaManagerContractAddress cfg) \<or> unset (cfg_rpcUrl cfg)
      then (Inl (new_SchemaCreationError
                   ''schemaManagerContractAddress and rpcUrl must be defined and not empty'' None), [])
      else case new_EthereumSchemaRegistry w
                  \<lparr>contractAddress = setting (schemaManagerContractAddress cfg),
                   rpcUrl = setting (cfg_rpcUrl cfg),
                   signingKey = None\<rparr> of
        Inl e \<Rightarrow> (Inl e, [])
      | Inr reg \<Rightarrow>
          (case getPublicKeyFromDid w d of
             Inl e \<Rightarrow> (Inl e, [])
           | Inr (publicKeyBase58, account) \<Rightarrow>
               (case parseAddress w account of
                  Inl e \<Rightarrow> (Inl e, [])
                | Inr address \<Rightarrow>
                    (case getSchema w reg address schemaId of
                       (Inl e, evs) \<Rightarrow> (Inl e, evs)
                     | (Inr None, evs) \<Rightarrow>
                         (Inl (new_SchemaRetrievalError schemaId ''Schema not found on ledger'' None),
                          evs)
                     | (Inr (Some response), evs) \<Rightarrow> (Inr response, evs)))))"

definition getSchemaByDidAndSchemaId_catch :: "string \<Rightarrow> string \<Rightarrow> thrown \<Rightarrow> thrown \<times> event list" where
  "getSchemaByDidAndSchemaId_catch d schemaId error =
     (if instanceof_EthereumLedgerError error then (error, [])
      else (new_SchemaRetrievalError schemaId
              (case message_of error of Some m \<Rightarrow> m | None \<Rightarrow> ''Unknown error occurred'')
              (if instanceof_Error error then Some error else None),
            [Log LogError (''Schema retrieval failed for DID: '' @ d @ '', Schema ID: '' @ schemaId)]))"

definition getSchemaByDidAndSchemaId ::
  "world \<Rightarrow> ledger_config \<Rightarrow> string \<Rightarrow> string \<Rightarrow> (thrown + string) \<times> event list" where
  "getSchemaByDidAndSchemaId w cfg d schemaId =
     (if blank d
      then (Inl (new_SchemaRetrievalError schemaId ''DID is required and cannot be empty'' None), [])
      else if blank schemaId
      then (Inl (new_SchemaRetrievalError schemaId ''Schema ID is required and cannot be empty'' None),
            [])
      else case getSchemaByDidAndSchemaId_try w cfg d schemaId of
        (Inr response, evs) \<Rightarrow>
          (Inr response,
           Log Info (''Getting schema from ledger: '' @ d @ '' and schemaId: '' @ schemaId) # evs)
      | (Inl error, evs) \<Rightarrow>
          (Inl (fst (getSchemaByDidAndSchemaId_catch d schemaId error)),
           Log Info (''Getting schema from ledger: '' @ d @ '' and schemaId: '' @ schemaId) # evs
             @ snd (getSchemaByDidAndSchemaId_catch d schemaId error)))"

section \<open>Reading outcomes, and example worlds\<close>

text \<open>The \<open>@context\<close> array of the document a resolution returned, when there is one.\<close>

definition context_list :: "thrown + did_resolution_result \<Rightarrow> string list option" where
  "context_list outcome =
     (case outcome of
        Inl e \<Rightarrow> None
      | Inr res \<Rightarrow>
          (case didDocument res of
             None \<Rightarrow> None
           | Some d \<Rightarrow>
               (case at_context d of
                  Some (CtxArray xs) \<Rightarrow> Some xs
                | Some (CtxString s) \<Rightarrow> None
                | None \<Rightarrow> None)))"

text \<open>A resolver whose library call fails, and one that answers with a given context array.\<close>

definition failing_resolver :: resolver_env where
  "failing_resolver =
     \<lparr>dependencyManager_resolve = None,
      resolveDID = (\<lambda>d. Inl (new_Error ''could not detect network'')),
      fromJSON_throws = (\<lambda>doc. None)\<rparr>"

text \<open>
  A container that cannot build the ledger service, as when the module's configuration
  was never registered.
\<close>

definition unregistered_resolver :: resolver_env where
  "unregistered_resolver =
     \<lparr>dependencyManager_resolve =
        Some (new_Error ''TypeInfo not known for EthereumModuleConfig''),
      resolveDID = (\<lambda>d. Inl (new_Error ''could not detect network'')),
      fromJSON_throws = (\<lambda>doc. None)\<rparr>"

definition resolved_with :: "string list \<Rightarrow> resolver_env" where
  "resolved_with ctxs =
     \<lparr>dependencyManager_resolve = None,
      resolveDID = (\<lambda>d. Inr \<lparr>didDocument = Some \<lparr>at_context = Some (CtxArray ctxs), doc_id = d,
                                                   verificationMethod = None\<rparr>,
                               didDocumentMetadata = [],
                               didResolutionMetadata = [(''contentType'', ''application/did+ld+json'')]\<rparr>),
      fromJSON_throws = (\<lambda>doc. None)\<rparr>"

text \<open>The first failure a call ends with, if it ends with one.\<close>

definition rejection :: "(thrown + 'a) \<times> event list \<Rightarrow> thrown option" where
  "rejection outcome = (case fst outcome of Inl e \<Rightarrow> Some e | Inr v \<Rightarrow> None)"

text \<open>
  A world in which every collaborator answers: one DID is stored with one verification
  method, its key is in the wallet, the contract confirms a transaction, the file server
  accepts the upload.
\<close>

definition example_did :: string where
  "example_did = ''did:ethr:sepolia:0x022527341df022c9b898999cf6035ed3addca5d30e''"

definition example_method :: verification_method where
  "example_method =
     \<lparr>vm_id = ''did:ethr:sepolia:0x022527341df022c9b898999cf6035ed3addca5d30e#controller'',
      publicKeyHex = Some ''022527341df022c9b898999cf6035ed3addca5d30e'',
      blockchainAccountId = Some ''eip155:11155111:0x70F88e12EaE54548839f320A5958C49421512A84''\<rparr>"

definition example_world :: world where
  "example_world =
     \<lparr>isAddress = (\<lambda>a. length a = 42 \<and> take 2 a = ''0x''),
      provider_throws = (\<lambda>url address. None),
      contract_createSchema = (\<lambda>schemaId json. Inr (Some \<lparr>hash = ''0x5c504ed432cb5113''\<rparr>)),
      contract_schemas = (\<lambda>address schemaId. Inr ''{}''),
      new_SigningKey = (\<lambda>b. Inr (SigningKey b)),
      JSON_parse = (\<lambda>s. if s = ''{}'' then Inr (JObj [])
                          else Inl (ErrorObj (Foreign ''SyntaxError'') ''Unexpected token''
                                      None None None None None)),
      JSON_stringify = (\<lambda>v. ''{}''),
      keccak256_hex = (\<lambda>s. ''c5d2460186f7233c''),
      Date_toISOString = ''2025-01-01T00:00:00.000Z'',
      http_send = (\<lambda>req. Inr \<lparr>http_status = 201, http_body = []\<rparr>),
      uuid = ''1b9d6bcd-bbfd-4b2d-9b5d-ab8dfbbd4bed'',
      findCreatedDid = (\<lambda>d. if d = example_did
                              then Inr (Some \<lparr>record_didDocument =
                                     Some \<lparr>at_context = None, doc_id = d,
                                           verificationMethod = Some [example_method]\<rparr>\<rparr>)
                              else Inr None),
      wallet_is_askar = True,
      fetchKey = (\<lambda>name. Inr (Some \<lparr>secretBytes = [137, 214, 230, 223]\<rparr>)),
      fromHex = (\<lambda>h. map of_char h),
      toBase58 = (\<lambda>b. ''2Gk7WLs3bUqSXqxfRo5UXwhmrFvJ''),
      getPreferredKey = (\<lambda>vms. Inr ''eip155:11155111:0x70F88e12EaE54548839f320A5958C49421512A84''),
      parseAddress = (\<lambda>account. Inr ''0x70F88e12EaE54548839f320A5958C49421512A84'')\<rparr>"

definition example_config :: ledger_config where
  "example_config =
     \<lparr>cfg_rpcUrl = Some ''https://eth-sepolia.g.alchemy.com/v2/API-KEY'',
      schemaManagerContractAddress = Some ''0x70F88e12EaE54548839f320A5958C49421512A84'',
      fileServerToken = Some ''FILE-SERVER-TOKEN'',
      fileServerUrl = Some ''FILE-SERVER-URL''\<rparr>"

definition example_options :: SchemaCreateOptions where
  "example_options =
     \<lparr>did = example_did,
      schemaName = ''TestCollegeSchema'',
      schema = JObj [(''title'', JStr ''College''), (''type'', JStr ''object'')]\<rparr>"

definition example_registry :: registry where
  "example_registry =
     \<lparr>wallet = Some (SigningKey [137, 214, 230, 223]),
      registry_address = ''0x70F88e12EaE54548839f320A5958C49421512A84''\<rparr>"

text \<open>Failures of the collaborators, for the worlds in which one of them fails.\<close>

definition connection_refused :: thrown where
  "connection_refused =
     ErrorObj (Foreign ''AxiosError'') ''connect ECONNREFUSED 127.0.0.1:4000''
       None None (Some ''ECONNREFUSED'') None None"

definition insufficient_funds :: thrown where
  "insufficient_funds =
     ErrorObj Error ''insufficient funds for intrinsic transaction cost''
       None None (Some ''INSUFFICIENT_FUNDS'') None None"

definition upload_refused_world :: world where
  "upload_refused_world = example_world\<lparr>http_send := (\<lambda>req. Inl connection_refused)\<rparr>"

definition upload_500_world :: world where
  "upload_500_world =
     example_world\<lparr>http_send := (\<lambda>req. Inr \<lparr>http_status = 500, http_body = ''Internal Server Error''\<rparr>)\<rparr>"

definition no_funds_world :: world where
  "no_funds_world = example_world\<lparr>contract_createSchema := (\<lambda>schemaId json. Inl insufficient_funds)\<rparr>"

definition bad_address_config :: ledger_config where
  "bad_address_config = example_config\<lparr>schemaManagerContractAddress := Some ''0x70F8''\<rparr>"

definition no_rpc_config :: ledger_config where
  "no_rpc_config = example_config\<lparr>cfg_rpcUrl := None\<rparr>"

text \<open>What \<open>createSchema\<close> has prepared in the example world when both calls start.\<close>

definition example_prepared :: prepared where
  "example_prepared =
     \<lparr>ethSchemaRegistry = example_registry,
      prepared_schemaId = ''1b9d6bcd-bbfd-4b2d-9b5d-ab8dfbbd4bed'',
      schemaResource =
        \<lparr>resourceURI = ''did:ethr:sepolia:0x022527341df022c9b898999cf6035ed3addca5d30e/resources/1b9d6bcd-bbfd-4b2d-9b5d-ab8dfbbd4bed'',
         resourceCollectionId = ''0x70F88e12EaE54548839f320A5958C49421512A84'',
         resourceId = ''1b9d6bcd-bbfd-4b2d-9b5d-ab8dfbbd4bed'',
         resourceName = ''TestCollegeSchema'',
         resourceType = ''W3C-schema'', mediaType = [],
         created = ''2025-01-01T00:00:00.000Z'',
         checksum = ''c5d2460186f7233c'', previousVersionId = [],
         nextVersionId = []\<rparr>\<rparr>"

text \<open>
  A world whose hash gives back the text it is given, so that two different texts never
  share a checksum.
\<close>

definition plain_hash_world :: world where
  "plain_hash_world = example_world\<lparr>keccak256_hex := (\<lambda>s. s)\<rparr>"

section \<open>Substrings\<close>

lemma str_includes_prefix: "str_includes (s @ q) s"
proof (cases "s @ q")
  case Nil
  then show ?thesis by simp
next
  case (Cons a list)
  have "take (length s) (s @ q) = s" by simp
  with Cons show ?thesis by simp
qed

lemma str_includes_append: "str_includes (p @ s @ q) s"
proof (induction p)
  case Nil
  show ?case using str_includes_prefix by simp
next
  case (Cons c p)
  then show ?case by simp
qed

lemma str_includes_suffix: "str_includes (p @ s) s"
  using str_includes_append [of p s "[]"] by simp

section \<open>The resolver adapter\<close>

lemma resolve_returns:
  "dependencyManager_resolve env = None \<Longrightarrow> \<exists>res. resolve env d = Inr res"
  by (simp add: resolve_def Let_def split: sum.splits option.splits)

text \<open>
  Claim C4, as stated, fails: the adapter asks the dependency container for the ledger
  service before its \<open>try\<close>, so when that lookup throws, \<open>resolve\<close> throws too and
  returns no result.
\<close>

theorem resolve_lookup_throws_counterexample:
  "resolve unregistered_resolver ''did:ethr:sepolia:0x1111''
     = Inl (new_Error ''TypeInfo not known for EthereumModuleConfig'')"
  by (simp add: resolve_def unregistered_resolver_def)

text \<open>
  Claim C4, amended. When the lookup of the ledger service succeeds, \<open>resolve\<close> returns
  and does not throw; and when the delegated resolution then fails (the resolver call
  throws \<open>e\<close>, or the document it returned is rejected with \<open>e\<close> when it is
  transformed), the result has a null document, the error code \<open>notFound\<close>, and a
  message that contains the string form of \<open>e\<close>.
\<close>

theorem resolve_after_lookup_never_throws:
  assumes "dependencyManager_resolve env = None"
  shows "(\<exists>res. resolve env d = Inr res)
       \<and> (resolveDID env d = Inl e
            \<or> (\<exists>r. resolveDID env d = Inr r
                   \<and> fromJSON_throws env (normalize_document (didDocument r)) = Some e)
          \<longrightarrow> (\<exists>res m. resolve env d = Inr res
                 \<and> didDocument res = None
                 \<and> map_of (didResolutionMetadata res) ''error'' = Some ''notFound''
                 \<and> map_of (didResolutionMetadata res) ''message'' = Some m
                 \<and> str_includes m (toString e)))"
proof (intro conjI impI)
  show "\<exists>res. resolve env d = Inr res"
    using assms by (rule resolve_returns)
next
  assume failure: "resolveDID env d = Inl e
            \<or> (\<exists>r. resolveDID env d = Inr r
                   \<and> fromJSON_throws env (normalize_document (didDocument r)) = Some e)"
  have "resolve env d = Inr (resolver_error_result d e)"
    using assms failure by (auto simp: resolve_def Let_def)
  then show "\<exists>res m. resolve env d = Inr res
                 \<and> didDocument res = None
                 \<and> map_of (didResolutionMetadata res) ''error'' = Some ''notFound''
                 \<and> map_of (didResolutionMetadata res) ''message'' = Some m
                 \<and> str_includes m (toString e)"
    by (simp add: resolver_error_result_def
        str_includes_suffix [of "''resolver_error: Unable to resolve did '' @ [CHR 0x27] @ d @ [CHR 0x27] @ '': ''" "toString e", simplified])
qed

theorem resolve_after_lookup_witness:
  "(\<exists>res. resolve failing_resolver ''did:ethr:sepolia:0x1111'' = Inr res)
   \<and> (\<exists>res m. resolve failing_resolver ''did:ethr:sepolia:0x1111'' = Inr res
           \<and> didDocument res = None
           \<and> map_of (didResolutionMetadata res) ''error'' = Some ''notFound''
           \<and> map_of (didResolutionMetadata res) ''message'' = Some m
           \<and> str_includes m ''Error: could not detect network'')"
proof -
  have lookup: "dependencyManager_resolve failing_resolver = None"
    by (simp add: failing_resolver_def)
  have fails: "resolveDID failing_resolver ''did:ethr:sepolia:0x1111''
                 = Inl (new_Error ''could not detect network'')"
    by (simp add: failing_resolver_def)
  have shown: "toString (new_Error ''could not detect network'') = ''Error: could not detect network''"
    by (simp add: new_Error_def)
  show ?thesis
    using resolve_after_lookup_never_throws [OF lookup, of "''did:ethr:sepolia:0x1111''"
        "new_Error ''could not detect network''"] fails shown
    by simp
qed

lemma count_normalize_context_list:
  "count_list (normalize_context_list xs) secp256k1_context
     = max 1 (count_list xs secp256k1_context)"
proof -
  define ys where "ys = filter (\<lambda>ctx. ctx \<noteq> unstable_context) xs"
  have ne: "secp256k1_context \<noteq> unstable_context"
    by (simp add: secp256k1_context_def unstable_context_def)
  have keep: "count_list ys secp256k1_context = count_list xs secp256k1_context"
    unfolding ys_def using ne by (induction xs) auto
  have unfolded: "normalize_context_list xs
      = (if secp256k1_context \<in> set ys then ys else ys @ [secp256k1_context])"
    unfolding normalize_context_list_def Let_def ys_def by (rule refl)
  show ?thesis
  proof (cases "secp256k1_context \<in> set ys")
    case True
    then have "count_list ys secp256k1_context \<noteq> 0"
      using count_list_0_iff [of ys secp256k1_context] by blast
    moreover have "normalize_context_list xs = ys"
      using unfolded True by simp
    ultimately show ?thesis using keep by simp
  next
    case False
    then have "count_list ys secp256k1_context = 0"
      using count_list_0_iff [of ys secp256k1_context] by blast
    moreover have "normalize_context_list xs = ys @ [secp256k1_context]"
      using unfolded False by simp
    ultimately show ?thesis using keep by simp
  qed
qed

lemma unstable_not_in_normalize_context_list:
  "unstable_context \<notin> set (normalize_context_list xs)"
  by (simp add: normalize_context_list_def Let_def secp256k1_context_def unstable_context_def)

text \<open>
  Claim C5, as stated, fails: the adapter adds the secp256k1 suite URI when it is
  missing and never removes a copy, so a resolved document that lists the URI twice
  still lists it twice.
\<close>

theorem resolve_context_duplicate_counterexample:
  "context_list (resolve (resolved_with [secp256k1_context, secp256k1_context])
                   ''did:ethr:sepolia:0x1111'')
     = Some [secp256k1_context, secp256k1_context]
   \<and> count_list [secp256k1_context, secp256k1_context] secp256k1_context = 2"
  by (simp add: resolve_def resolved_with_def normalize_document_def normalize_context_list_def
      context_list_def Let_def secp256k1_context_def unstable_context_def)

text \<open>
  Claim C5, amended. For a successful resolution of a document with an array-valued
  \<open>@context\<close> \<open>xs\<close>, the output context list has no occurrence of the unstable URI and
  at least one of the secp256k1 suite URI: as many as \<open>xs\<close> had, and one when \<open>xs\<close> had
  none. So it has exactly one whenever \<open>xs\<close> had at most one.
\<close>

theorem resolve_context_unstable_removed_stable_present:
  assumes "resolveDID env d = Inr r"
    and "didDocument r = Some doc"
    and "at_context doc = Some (CtxArray xs)"
    and "resolve env d = Inr res"
    and "didDocument res \<noteq> None"
  shows "\<exists>zs. context_list (resolve env d) = Some zs
           \<and> count_list zs unstable_context = 0
           \<and> 1 \<le> count_list zs secp256k1_context
           \<and> count_list zs secp256k1_context = max 1 (count_list xs secp256k1_context)"
proof -
  have "context_list (resolve env d) = Some (normalize_context_list xs)"
    using assms
    by (auto simp: resolve_def Let_def context_list_def normalize_document_def resolver_error_result_def
        split: option.splits)
  then show ?thesis
    using count_normalize_context_list [of xs] unstable_not_in_normalize_context_list [of xs]
    by (simp add: count_list_0_iff)
qed

theorem resolve_context_witness:
  "\<exists>zs. context_list (resolve (resolved_with [''https://www.w3.org/ns/did/v1'', unstable_context])
                          ''did:ethr:sepolia:0x1111'') = Some zs
           \<and> count_list zs unstable_context = 0
           \<and> 1 \<le> count_list zs secp256k1_context
           \<and> count_list zs secp256k1_context = 1"
proof -
  let ?env = "resolved_with [''https://www.w3.org/ns/did/v1'', unstable_context]"
  let ?d = "''did:ethr:sepolia:0x1111''"
  let ?doc = "\<lparr>at_context = Some (CtxArray [''https://www.w3.org/ns/did/v1'', unstable_context]),
               doc_id = ?d, verificationMethod = None\<rparr>"
  let ?r = "\<lparr>didDocument = Some ?doc, didDocumentMetadata = [],
             didResolutionMetadata = [(''contentType'', ''application/did+ld+json'')]\<rparr>"
  have a: "resolveDID ?env ?d = Inr ?r" by (simp add: resolved_with_def)
  have b: "didDocument ?r = Some ?doc" by simp
  have c: "at_context ?doc = Some (CtxArray [''https://www.w3.org/ns/did/v1'', unstable_context])"
    by simp
  obtain res where d: "resolve ?env ?d = Inr res" and e: "didDocument res \<noteq> None"
    by (simp add: resolve_def resolved_with_def normalize_document_def Let_def)
  have f: "count_list [''https://www.w3.org/ns/did/v1'', unstable_context] secp256k1_context = 0"
    by (simp add: secp256k1_context_def unstable_context_def)
  show ?thesis
    using resolve_context_unstable_removed_stable_present [OF a b c d e] f by simp
qed

section \<open>The registry client\<close>

lemma validateSchemaId_class:
  "validateSchemaId s = Some e \<Longrightarrow> cls_of e = Some ValidationError"
  by (auto simp: validateSchemaId_def new_ValidationError_def split: if_splits)

lemma validateJson_class:
  "validateJson w json = Some e \<Longrightarrow> cls_of e = Some ValidationError"
  by (auto simp: validateJson_def new_ValidationError_def split: if_splits sum.splits)

lemma validateSchemaId_rejects:
  "schemaId = [] \<or> blank schemaId \<or> length schemaId > 256
   \<Longrightarrow> validateSchemaId schemaId \<noteq> None"
  by (auto simp: validateSchemaId_def blank_def)

lemma validateJson_rejects:
  "json = [] \<or> blank json \<or> isl (JSON_parse w json)
   \<Longrightarrow> validateJson w json \<noteq> None"
  by (auto simp: validateJson_def blank_def isl_def split: sum.splits)

text \<open>
  Claim C9. With a signer present, the client's \<open>createSchema\<close> fails with a
  \<open>ValidationError\<close> and submits no contract call when the schema id is empty, blank or
  longer than 256 characters, or the JSON text is empty, blank or rejected by
  \<open>JSON.parse\<close>.
\<close>

theorem registry_createSchema_validates_first:
  assumes "wallet reg \<noteq> None"
    and "schemaId = [] \<or> blank schemaId \<or> length schemaId > 256
         \<or> json = [] \<or> blank json \<or> isl (JSON_parse w json)"
  shows "\<exists>e. registry_createSchema w reg schemaId json = (Inl e, [])
              \<and> cls_of e = Some ValidationError"
proof (cases "validateSchemaId schemaId")
  case (Some e)
  then have "cls_of e = Some ValidationError" by (rule validateSchemaId_class)
  with Some assms(1) show ?thesis by (auto simp: registry_createSchema_def)
next
  case None
  then have "json = [] \<or> blank json \<or> isl (JSON_parse w json)"
    using assms(2) validateSchemaId_rejects [of schemaId] by auto
  then obtain e where e: "validateJson w json = Some e"
    using validateJson_rejects [of json w] by auto
  then have "cls_of e = Some ValidationError" by (rule validateJson_class)
  with e None assms(1) show ?thesis by (auto simp: registry_createSchema_def)
qed

theorem registry_createSchema_validates_first_witness:
  "\<exists>e. registry_createSchema example_world example_registry
          ''1b9d6bcd-bbfd-4b2d-9b5d-ab8dfbbd4bed'' ''invalid-json'' = (Inl e, [])
        \<and> cls_of e = Some ValidationError"
proof -
  have a: "wallet example_registry \<noteq> None" by (simp add: example_registry_def)
  have b: "isl (JSON_parse example_world ''invalid-json'')" by (simp add: example_world_def)
  show ?thesis
    using registry_createSchema_validates_first [OF a, of "''1b9d6bcd-bbfd-4b2d-9b5d-ab8dfbbd4bed''"
        "''invalid-json''" example_world] b by simp
qed

section \<open>The resource builders\<close>

text \<open>
  Claim C3 fails on the code. \<open>buildSchemaResource\<close> hashes \<open>String(schema)\<close>, which
  for a plain object does not depend on what the object holds beyond whether it has an
  own property \<open>toString\<close>. So two object schemas that agree on that get the same
  outcome, checksum included, whatever the hash function and however their content
  differs.
\<close>

theorem buildSchemaResource_ignores_object_content:
  assumes "(''toString'' \<in> set (map fst kvs)) = (''toString'' \<in> set (map fst kvs'))"
  shows "buildSchemaResource w d schemaId name (JObj kvs) address
           = buildSchemaResource w d schemaId name (JObj kvs') address"
  using assms by (simp add: buildSchemaResource_def)

theorem buildSchemaResource_collision_witness:
  "buildSchemaResource plain_hash_world example_did ''1b9d6bcd-bbfd-4b2d-9b5d-ab8dfbbd4bed''
       ''TestCollegeSchema'' (JObj [(''a'', JStr ''1'')])
       ''0x70F88e12EaE54548839f320A5958C49421512A84''
     = buildSchemaResource plain_hash_world example_did ''1b9d6bcd-bbfd-4b2d-9b5d-ab8dfbbd4bed''
         ''TestCollegeSchema'' (JObj [(''b'', JStr ''2'')])
         ''0x70F88e12EaE54548839f320A5958C49421512A84''
   \<and> JObj [(''a'', JStr ''1'')] \<noteq> JObj [(''b'', JStr ''2'')]"
proof -
  have same: "(''toString'' \<in> set (map fst [(''a'', JStr ''1'')]))
                = (''toString'' \<in> set (map fst [(''b'', JStr ''2'')]))"
    by simp
  show ?thesis
    using buildSchemaResource_ignores_object_content [OF same, of plain_hash_world example_did
        "''1b9d6bcd-bbfd-4b2d-9b5d-ab8dfbbd4bed''" "''TestCollegeSchema''"
        "''0x70F88e12EaE54548839f320A5958C49421512A84''"]
    by simp
qed

lemma buildSchemaResource_object_checksum:
  "''toString'' \<notin> set (map fst kvs) \<Longrightarrow>
   buildSchemaResource w d schemaId name (JObj kvs) address = Inr r \<Longrightarrow>
   checksum r = keccak256_hex w ''[object Object]''"
  by (auto simp: buildSchemaResource_def Let_def split: if_splits)

lemma axios_rejects_outside_2xx:
  "http_send w req = Inr resp \<Longrightarrow> \<not> (200 \<le> http_status resp \<and> http_status resp < 300)
   \<Longrightarrow> \<exists>e. axios w req = Inl e \<and> cls_of e = Some (Foreign ''AxiosError'')"
  by (simp add: axios_def)

lemma axios_rejects_transport_failure:
  "http_send w req = Inl e \<Longrightarrow> axios w req = Inl e"
  by (simp add: axios_def)

text \<open>
  Claim C8, as stated, fails: the error \<open>uploadSchemaFile\<close> raises for a refused
  connection has no cause (and no other property that holds the original failure);
  only the failure's string form is in its message.
\<close>

theorem uploadSchemaFile_cause_counterexample:
  "rejection (uploadSchemaFile_try upload_refused_world ''1b9d6bcd-bbfd-4b2d-9b5d-ab8dfbbd4bed''
                (schema example_options) ''FILE-SERVER-URL'' ''FILE-SERVER-TOKEN'')
     = Some connection_refused
   \<and> rejection (uploadSchemaFile upload_refused_world ''1b9d6bcd-bbfd-4b2d-9b5d-ab8dfbbd4bed''
                (schema example_options) ''FILE-SERVER-URL'' ''FILE-SERVER-TOKEN'')
     = Some (ErrorObj Error
         ''Error occurred in uploadSchemaFile function AxiosError: connect ECONNREFUSED 127.0.0.1:4000 ''
         None None None None None)"
  by (simp add: rejection_def uploadSchemaFile_def uploadSchemaFile_try_def upload_refused_world_def
      example_world_def example_options_def axios_def upload_request_def connection_refused_def
      new_Error_def)

text \<open>
  Claim C8, amended. When the request of \<open>uploadSchemaFile\<close> fails with \<open>e\<close> (the
  transport fails, or the response is outside 200 to 299), the function raises a plain
  \<open>Error\<close> whose message is the fixed prefix, the string form of \<open>e\<close> and a space. The
  raised error has no cause.
\<close>

theorem uploadSchemaFile_failure_message_only:
  assumes "schemaId \<noteq> []"
    and "Object_keys_length body = Inr n"
    and "0 < n"
    and "axios w (upload_request w schemaId body url token) = Inl e"
  shows "\<exists>x. fst (uploadSchemaFile w schemaId body url token) = Inl x
           \<and> cls_of x = Some Error
           \<and> message_of x = Some (''Error occurred in uploadSchemaFile function '' @ toString e @ '' '')
           \<and> str_includes (setting (message_of x)) (toString e)
           \<and> cause_of x = None
           \<and> originalError_of x = None"
  using assms
  by (simp add: uploadSchemaFile_def uploadSchemaFile_try_def Let_def new_Error_def
      str_includes_append [of "''Error occurred in uploadSchemaFile function ''" "toString e" "'' ''", simplified])

theorem uploadSchemaFile_failure_witness:
  "\<exists>x. fst (uploadSchemaFile upload_500_world ''1b9d6bcd-bbfd-4b2d-9b5d-ab8dfbbd4bed''
              (JObj [(''title'', JStr ''College'')]) ''FILE-SERVER-URL'' ''FILE-SERVER-TOKEN'') = Inl x
       \<and> cls_of x = Some Error
       \<and> message_of x = Some
           ''Error occurred in uploadSchemaFile function AxiosError: Request failed with status code 500 ''
       \<and> str_includes (setting (message_of x)) ''AxiosError: Request failed with status code 500''
       \<and> cause_of x = None
       \<and> originalError_of x = None"
proof -
  let ?e = "ErrorObj (Foreign ''AxiosError'') ''Request failed with status code 500''
              None None (Some ''ERR_BAD_RESPONSE'') None None"
  have d: "digits 500 = ''500''"
    by code_simp
  have a: "''1b9d6bcd-bbfd-4b2d-9b5d-ab8dfbbd4bed'' \<noteq> []" by simp
  have b: "Object_keys_length (JObj [(''title'', JStr ''College'')]) = Inr 1" by simp
  have c: "(0::nat) < 1" by simp
  have f: "axios upload_500_world
             (upload_request upload_500_world ''1b9d6bcd-bbfd-4b2d-9b5d-ab8dfbbd4bed''
                (JObj [(''title'', JStr ''College'')]) ''FILE-SERVER-URL'' ''FILE-SERVER-TOKEN'')
           = Inl ?e"
    by (simp add: axios_def upload_500_world_def example_world_def d)
  show ?thesis
    using uploadSchemaFile_failure_message_only [OF a b c f] by simp
qed

section \<open>The ledger service\<close>

lemma handleContractError_message:
  "\<exists>m. message_of (handleContractError e) = Some m \<and> m \<noteq> []"
  by (simp add: handleContractError_def new_ContractError_def new_NetworkError_def)

lemma validateSchemaId_message:
  "validateSchemaId s = Some e \<Longrightarrow> \<exists>m. message_of e = Some m \<and> m \<noteq> []"
  by (auto simp: validateSchemaId_def new_ValidationError_def split: if_splits)

lemma validateJson_message:
  "validateJson w json = Some e \<Longrightarrow> \<exists>m. message_of e = Some m \<and> m \<noteq> []"
  by (auto simp: validateJson_def new_ValidationError_def split: if_splits sum.splits)

lemma registry_createSchema_rejection_message:
  assumes "fst (registry_createSchema w reg schemaId json) = Inl reason"
  shows "\<exists>m. message_of reason = Some m \<and> m \<noteq> []"
proof (cases "wallet reg = None")
  case True
  with assms show ?thesis
    by (auto simp: registry_createSchema_def new_ValidationError_def)
next
  case wal: False
  show ?thesis
  proof (cases "validateSchemaId schemaId")
    case (Some e)
    with assms wal have "reason = e" by (simp add: registry_createSchema_def)
    with Some show ?thesis using validateSchemaId_message by blast
  next
    case sid: None
    show ?thesis
    proof (cases "validateJson w json")
      case (Some e)
      with assms wal sid have "reason = e" by (simp add: registry_createSchema_def)
      with Some show ?thesis using validateJson_message by blast
    next
      case None
      with assms wal sid obtain error where "reason = handleContractError error"
        by (auto simp: registry_createSchema_def split: sum.splits)
      then show ?thesis using handleContractError_message by simp
    qed
  qed
qed

lemma errMsg_of_message:
  "message_of reason = Some m \<Longrightarrow> m \<noteq> [] \<Longrightarrow> errMsg reason = toLowerCase m"
  by (simp add: errMsg_def)

text \<open>
  Claim C6. When \<open>createSchema\<close> has reached the two calls and the on-chain write is
  rejected with \<open>reason\<close>, the operation fails with a \<open>SchemaCreationError\<close> whose cause
  is \<open>reason\<close>: \<open>Insufficient funds to pay for gas fees\<close> if the lowercased message of
  \<open>reason\<close> contains \<open>insufficient funds\<close> or \<open>insufficient balance\<close>, and
  \<open>Blockchain transaction failed\<close> otherwise. A rejection of the registry client always
  has a non-empty message, so the message is what the code inspects.
\<close>

theorem createSchema_chain_rejection_fatal:
  assumes "\<not> unset (schemaManagerContractAddress cfg)" and "\<not> unset (cfg_rpcUrl cfg)"
    and "\<not> unset (fileServerUrl cfg)" and "\<not> unset (fileServerToken cfg)"
    and "\<not> blank (did opts)" and "\<not> blank (schemaName opts)"
    and "\<not> schema_empty (schema opts)"
    and "createSchema_prepare w cfg opts = Inr p"
    and "fst (registry_createSchema w (ethSchemaRegistry p) (prepared_schemaId p)
               (JSON_stringify w (resource_object (schemaResource p)))) = Inl reason"
  shows "\<exists>m. message_of reason = Some m
           \<and> fst (createSchema w cfg opts)
             = Inl (new_SchemaCreationError
                      (if str_includes (toLowerCase m) ''insufficient funds''
                          \<or> str_includes (toLowerCase m) ''insufficient balance''
                       then ''Insufficient funds to pay for gas fees''
                       else ''Blockchain transaction failed'')
                      (Some reason))"
proof -
  obtain m where m: "message_of reason = Some m" "m \<noteq> []"
    using registry_createSchema_rejection_message [OF assms(9)] by blast
  then have low: "errMsg reason = toLowerCase m" by (rule errMsg_of_message)
  have settled: "fst (createSchema_try w cfg opts)
      = Inl (new_SchemaCreationError
               (if str_includes (toLowerCase m) ''insufficient funds''
                   \<or> str_includes (toLowerCase m) ''insufficient balance''
                then ''Insufficient funds to pay for gas fees''
                else ''Blockchain transaction failed'')
               (Some reason))"
    using assms(8,9) low
    by (simp add: createSchema_try_def createSchema_settled_def Let_def)
  have passes: "fst (createSchema_catch (did opts) (new_SchemaCreationError x c))
                  = new_SchemaCreationError x c" for x c
    by (simp add: createSchema_catch_def new_SchemaCreationError_def)
  have "fst (createSchema w cfg opts)
      = Inl (new_SchemaCreationError
               (if str_includes (toLowerCase m) ''insufficient funds''
                   \<or> str_includes (toLowerCase m) ''insufficient balance''
                then ''Insufficient funds to pay for gas fees''
                else ''Blockchain transaction failed'')
               (Some reason))"
    using assms(1-7) settled passes
    by (cases "createSchema_try w cfg opts") (simp add: createSchema_def split: sum.splits)
  with m show ?thesis by simp
qed

lemma no_funds_prepare:
  "createSchema_prepare no_funds_world example_config example_options = Inr example_prepared"
  by (simp add: createSchema_prepare_def example_world_def example_config_def example_options_def
      getPublicKeyFromDid_def getSigningKey_def new_EthereumSchemaRegistry_def validateConfig_def
      buildSchemaResource_def example_did_def example_method_def has_publicKeyHex_def
      example_prepared_def example_registry_def no_funds_world_def)

lemma example_inputs_pass:
  "\<not> unset (schemaManagerContractAddress example_config)"
  "\<not> unset (cfg_rpcUrl example_config)"
  "\<not> unset (fileServerUrl example_config)"
  "\<not> unset (fileServerToken example_config)"
  "\<not> blank (did example_options)"
  "\<not> blank (schemaName example_options)"
  "\<not> schema_empty (schema example_options)"
  by (simp_all add: example_config_def example_options_def example_did_def blank_def trim_def
      js_whitespace_def schema_empty_def)

theorem createSchema_chain_rejection_witness:
  "fst (createSchema no_funds_world example_config example_options)
     = Inl (new_SchemaCreationError ''Insufficient funds to pay for gas fees''
              (Some (new_ContractError
                       ''Transaction failed: insufficient funds for intrinsic transaction cost''
                       None (Some insufficient_funds))))"
proof -
  let ?reason = "new_ContractError
                   ''Transaction failed: insufficient funds for intrinsic transaction cost''
                   None (Some insufficient_funds)"
  have prep: "createSchema_prepare no_funds_world example_config example_options = Inr example_prepared"
    by (rule no_funds_prepare)
  have chain: "fst (registry_createSchema no_funds_world (ethSchemaRegistry example_prepared)
                     (prepared_schemaId example_prepared)
                     (JSON_stringify no_funds_world (resource_object (schemaResource example_prepared))))
               = Inl ?reason"
    by (simp add: registry_createSchema_def no_funds_world_def example_world_def
        example_prepared_def example_registry_def validateSchemaId_def validateJson_def trim_def
        js_whitespace_def handleContractError_def insufficient_funds_def message_text_def
        new_ContractError_def)
  have low: "toLowerCase ''Transaction failed: insufficient funds for intrinsic transaction cost''
             = ''transaction failed: insufficient funds for intrinsic transaction cost''"
    by code_simp
  have inc: "str_includes ''transaction failed: insufficient funds for intrinsic transaction cost''
               ''insufficient funds''"
    by simp
  show ?thesis
    using createSchema_chain_rejection_fatal [OF example_inputs_pass prep chain] low inc
    by (simp add: new_ContractError_def)
qed

text \<open>
  Claim C1. When \<open>createSchema\<close> has reached the two calls, the on-chain write is
  fulfilled with a receipt that carries a transaction hash and the upload is rejected,
  the operation returns \<open>{did, schemaId, schemaTxnHash}\<close> with the hash of the receipt.
  The rejection is written to the log as a warning and nothing is logged as an error.
\<close>

theorem createSchema_upload_rejection_not_fatal:
  assumes "\<not> unset (schemaManagerContractAddress cfg)" and "\<not> unset (cfg_rpcUrl cfg)"
    and "\<not> unset (fileServerUrl cfg)" and "\<not> unset (fileServerToken cfg)"
    and "\<not> blank (did opts)" and "\<not> blank (schemaName opts)"
    and "\<not> schema_empty (schema opts)"
    and "createSchema_prepare w cfg opts = Inr p"
    and "fst (registry_createSchema w (ethSchemaRegistry p) (prepared_schemaId p)
               (JSON_stringify w (resource_object (schemaResource p)))) = Inr (Some r)"
    and "hash r \<noteq> []"
    and "fst (uploadSchemaFile w (prepared_schemaId p) (schema opts)
               (setting (fileServerUrl cfg)) (setting (fileServerToken cfg))) = Inl e"
  shows "fst (createSchema w cfg opts)
           = Inr \<lparr>result_did = did opts, result_schemaId = prepared_schemaId p,
                  schemaTxnHash = Some (hash r)\<rparr>
         \<and> (\<exists>m. Log Warn (''File server upload failed for schema '' @ prepared_schemaId p @ '': '' @ m)
                  \<in> set (snd (createSchema w cfg opts)))
         \<and> (\<forall>m. Log LogError m \<notin> set (snd (createSchema w cfg opts)))"
proof -
  define warning where "warning =
    Log Warn (''File server upload failed for schema '' @ prepared_schemaId p @ '': '' @
       (if \<not> unset (message_of e) then setting (message_of e) else ''Unknown error''))"
  define chain where "chain = registry_createSchema w (ethSchemaRegistry p) (prepared_schemaId p)
               (JSON_stringify w (resource_object (schemaResource p)))"
  define upload where "upload = uploadSchemaFile w (prepared_schemaId p) (schema opts)
               (setting (fileServerUrl cfg)) (setting (fileServerToken cfg))"
  have settled: "createSchema_settled (did opts) (prepared_schemaId p) (Inr (Some r)) (Inl e)
      = (Inr \<lparr>result_did = did opts, result_schemaId = prepared_schemaId p,
               schemaTxnHash = Some (hash r)\<rparr>,
         [warning, Log Info (''Successfully created schema on ledger for DID: '' @ did opts)])"
    using assms(10) by (simp add: createSchema_settled_def warning_def)
  have tried: "createSchema_try w cfg opts
      = (Inr \<lparr>result_did = did opts, result_schemaId = prepared_schemaId p,
               schemaTxnHash = Some (hash r)\<rparr>,
         snd chain @ snd upload @
           [warning, Log Info (''Successfully created schema on ledger for DID: '' @ did opts)])"
    using assms(8,9,11) settled
    by (simp add: createSchema_try_def Let_def chain_def upload_def)
  have whole: "createSchema w cfg opts
      = (Inr \<lparr>result_did = did opts, result_schemaId = prepared_schemaId p,
               schemaTxnHash = Some (hash r)\<rparr>,
         Log Info (''Creating schema on ledger: '' @ did opts) # snd chain @ snd upload @
           [warning, Log Info (''Successfully created schema on ledger for DID: '' @ did opts)])"
    using assms(1-7) tried by (simp add: createSchema_def)
  have chain_events: "Log LogError m \<notin> set (snd chain)" for m
    by (auto simp: chain_def registry_createSchema_def split: option.splits sum.splits)
  have upload_events: "Log LogError m \<notin> set (snd upload)" for m
    by (auto simp: upload_def uploadSchemaFile_def uploadSchemaFile_try_def Let_def
        split: option.splits sum.splits prod.splits if_splits)
  show ?thesis
    using whole chain_events upload_events by (auto simp: warning_def)
qed

theorem createSchema_upload_rejection_witness:
  "fst (createSchema upload_refused_world example_config example_options)
     = Inr \<lparr>result_did = example_did, result_schemaId = ''1b9d6bcd-bbfd-4b2d-9b5d-ab8dfbbd4bed'',
            schemaTxnHash = Some ''0x5c504ed432cb5113''\<rparr>
   \<and> (\<exists>m. Log Warn (''File server upload failed for schema 1b9d6bcd-bbfd-4b2d-9b5d-ab8dfbbd4bed: '' @ m)
            \<in> set (snd (createSchema upload_refused_world example_config example_options)))
   \<and> (\<forall>m. Log LogError m \<notin> set (snd (createSchema upload_refused_world example_config example_options)))"
proof -
  let ?e = "new_Error
     ''Error occurred in uploadSchemaFile function AxiosError: connect ECONNREFUSED 127.0.0.1:4000 ''"
  have prep: "createSchema_prepare upload_refused_world example_config example_options
                = Inr example_prepared"
    by (simp add: createSchema_prepare_def example_world_def example_config_def example_options_def
        getPublicKeyFromDid_def getSigningKey_def new_EthereumSchemaRegistry_def validateConfig_def
        buildSchemaResource_def example_did_def example_method_def has_publicKeyHex_def
        example_prepared_def example_registry_def upload_refused_world_def)
  have chain: "fst (registry_createSchema upload_refused_world (ethSchemaRegistry example_prepared)
                     (prepared_schemaId example_prepared)
                     (JSON_stringify upload_refused_world
                        (resource_object (schemaResource example_prepared))))
               = Inr (Some \<lparr>hash = ''0x5c504ed432cb5113''\<rparr>)"
    by (simp add: registry_createSchema_def upload_refused_world_def example_world_def
        example_prepared_def example_registry_def validateSchemaId_def validateJson_def trim_def
        js_whitespace_def)
  have h: "hash \<lparr>hash = ''0x5c504ed432cb5113''\<rparr> \<noteq> []" by simp
  have upload: "fst (uploadSchemaFile upload_refused_world (prepared_schemaId example_prepared)
                      (schema example_options) (setting (fileServerUrl example_config))
                      (setting (fileServerToken example_config))) = Inl ?e"
    by (simp add: uploadSchemaFile_def uploadSchemaFile_try_def upload_refused_world_def
        example_world_def example_options_def example_prepared_def example_config_def axios_def
        upload_request_def connection_refused_def)
  show ?thesis
    using createSchema_upload_rejection_not_fatal [OF example_inputs_pass prep chain h upload]
    by (simp add: example_options_def example_prepared_def)
qed

text \<open>
  Claim C7, as stated, fails: a \<open>ValidationError\<close> of the registry client, raised when
  the client is built with a malformed contract address, does not leave \<open>createSchema\<close>
  unchanged. It leaves as the cause of a new \<open>SchemaCreationError\<close>.
\<close>

theorem ledger_catch_wraps_registry_error_counterexample:
  "rejection (createSchema_try example_world bad_address_config example_options)
     = Some (new_ValidationError ''Invalid contract address'')
   \<and> rejection (createSchema example_world bad_address_config example_options)
     = Some (new_SchemaCreationError ''Invalid contract address''
               (Some (new_ValidationError ''Invalid contract address'')))
   \<and> rejection (createSchema example_world bad_address_config example_options)
     \<noteq> rejection (createSchema_try example_world bad_address_config example_options)"
  by (simp add: rejection_def createSchema_def createSchema_try_def createSchema_catch_def
      createSchema_prepare_def example_world_def example_config_def example_options_def
      bad_address_config_def getPublicKeyFromDid_def getSigningKey_def
      new_EthereumSchemaRegistry_def validateConfig_def example_did_def example_method_def
      has_publicKeyHex_def blank_def trim_def js_whitespace_def schema_empty_def
      new_ValidationError_def new_SchemaCreationError_def)

text \<open>
  Claim C7, amended. For an error \<open>e\<close> raised inside the \<open>try\<close> block of
  \<open>createSchema\<close> or of \<open>getSchemaByDidAndSchemaId\<close>: an instance of
  \<open>EthereumLedgerError\<close> (the ledger-level classes) passes unchanged; any other \<open>Error\<close>
  is wrapped into a \<open>SchemaCreationError\<close> or \<open>SchemaRetrievalError\<close> with its message as
  the reason and itself as the cause; a thrown value that is not an \<open>Error\<close> is wrapped
  with the reason \<open>Unknown error occurred\<close> and no cause. The registry client's
  \<open>ValidationError\<close>, \<open>ContractError\<close> and \<open>NetworkError\<close> are errors of the second kind.
\<close>

theorem ledger_catch_passes_ledger_errors_wraps_others:
  "(\<not> unset (schemaManagerContractAddress cfg) \<and> \<not> unset (cfg_rpcUrl cfg)
      \<and> \<not> unset (fileServerUrl cfg) \<and> \<not> unset (fileServerToken cfg)
      \<and> \<not> blank (did opts) \<and> \<not> blank (schemaName opts) \<and> \<not> schema_empty (schema opts)
      \<and> fst (createSchema_try w cfg opts) = Inl e
    \<longrightarrow> fst (createSchema w cfg opts)
          = Inl (if instanceof_EthereumLedgerError e then e
                 else if instanceof_Error e
                 then new_SchemaCreationError (setting (message_of e)) (Some e)
                 else new_SchemaCreationError ''Unknown error occurred'' None))
   \<and> (\<not> blank d \<and> \<not> blank schemaId
      \<and> fst (getSchemaByDidAndSchemaId_try w cfg d schemaId) = Inl e'
    \<longrightarrow> fst (getSchemaByDidAndSchemaId w cfg d schemaId)
          = Inl (if instanceof_EthereumLedgerError e' then e'
                 else if instanceof_Error e'
                 then new_SchemaRetrievalError schemaId (setting (message_of e')) (Some e')
                 else new_SchemaRetrievalError schemaId ''Unknown error occurred'' None))
   \<and> (cls_of e \<in> {Some ValidationError, Some ContractError, Some NetworkError}
    \<longrightarrow> \<not> instanceof_EthereumLedgerError e \<and> instanceof_Error e)"
proof (intro conjI impI)
  assume a: "\<not> unset (schemaManagerContractAddress cfg) \<and> \<not> unset (cfg_rpcUrl cfg)
      \<and> \<not> unset (fileServerUrl cfg) \<and> \<not> unset (fileServerToken cfg)
      \<and> \<not> blank (did opts) \<and> \<not> blank (schemaName opts) \<and> \<not> schema_empty (schema opts)
      \<and> fst (createSchema_try w cfg opts) = Inl e"
  then show "fst (createSchema w cfg opts)
          = Inl (if instanceof_EthereumLedgerError e then e
                 else if instanceof_Error e
                 then new_SchemaCreationError (setting (message_of e)) (Some e)
                 else new_SchemaCreationError ''Unknown error occurred'' None)"
    by (cases "createSchema_try w cfg opts"; cases e)
       (simp_all add: createSchema_def createSchema_catch_def)
next
  assume b: "\<not> blank d \<and> \<not> blank schemaId
      \<and> fst (getSchemaByDidAndSchemaId_try w cfg d schemaId) = Inl e'"
  then show "fst (getSchemaByDidAndSchemaId w cfg d schemaId)
          = Inl (if instanceof_EthereumLedgerError e' then e'
                 else if instanceof_Error e'
                 then new_SchemaRetrievalError schemaId (setting (message_of e')) (Some e')
                 else new_SchemaRetrievalError schemaId ''Unknown error occurred'' None)"
    by (cases "getSchemaByDidAndSchemaId_try w cfg d schemaId"; cases e')
       (simp_all add: getSchemaByDidAndSchemaId_def getSchemaByDidAndSchemaId_catch_def)
next
  assume "cls_of e \<in> {Some ValidationError, Some ContractError, Some NetworkError}"
  then show "\<not> instanceof_EthereumLedgerError e" by (cases e) auto
next
  assume "cls_of e \<in> {Some ValidationError, Some ContractError, Some NetworkError}"
  then show "instanceof_Error e" by (cases e) auto
qed

theorem ledger_catch_witness:
  "fst (createSchema example_world bad_address_config example_options)
     = Inl (new_SchemaCreationError ''Invalid contract address''
              (Some (new_ValidationError ''Invalid contract address'')))
   \<and> fst (getSchemaByDidAndSchemaId example_world bad_address_config example_did
            ''1b9d6bcd-bbfd-4b2d-9b5d-ab8dfbbd4bed'')
     = Inl (new_SchemaRetrievalError ''1b9d6bcd-bbfd-4b2d-9b5d-ab8dfbbd4bed''
              ''Invalid contract address'' (Some (new_ValidationError ''Invalid contract address'')))
   \<and> \<not> instanceof_EthereumLedgerError (new_ValidationError ''Invalid contract address'')"
proof -
  let ?e = "new_ValidationError ''Invalid contract address''"
  let ?id = "''1b9d6bcd-bbfd-4b2d-9b5d-ab8dfbbd4bed''"
  have pre: "\<not> unset (schemaManagerContractAddress bad_address_config)
      \<and> \<not> unset (cfg_rpcUrl bad_address_config)
      \<and> \<not> unset (fileServerUrl bad_address_config)
      \<and> \<not> unset (fileServerToken bad_address_config)
      \<and> \<not> blank (did example_options) \<and> \<not> blank (schemaName example_options)
      \<and> \<not> schema_empty (schema example_options)"
    by (simp add: bad_address_config_def example_config_def example_options_def example_did_def
        blank_def trim_def js_whitespace_def schema_empty_def)
  have tried: "fst (createSchema_try example_world bad_address_config example_options) = Inl ?e"
    by (simp add: createSchema_try_def createSchema_prepare_def example_world_def
        example_config_def example_options_def bad_address_config_def getPublicKeyFromDid_def
        getSigningKey_def new_EthereumSchemaRegistry_def validateConfig_def example_did_def
        example_method_def has_publicKeyHex_def)
  have pre': "\<not> blank example_did \<and> \<not> blank ?id"
    by (simp add: example_did_def blank_def trim_def js_whitespace_def)
  have tried': "fst (getSchemaByDidAndSchemaId_try example_world bad_address_config example_did ?id)
                  = Inl ?e"
    by (simp add: getSchemaByDidAndSchemaId_try_def example_world_def example_config_def
        bad_address_config_def new_EthereumSchemaRegistry_def validateConfig_def)
  have c: "cls_of ?e \<in> {Some ValidationError, Some ContractError, Some NetworkError}"
    by (simp add: new_ValidationError_def)
  have m: "setting (message_of ?e) = ''Invalid contract address''"
    "instanceof_Error ?e" "\<not> instanceof_EthereumLedgerError ?e"
    by (simp_all add: new_ValidationError_def)
  show ?thesis
    using ledger_catch_passes_ledger_errors_wraps_others
      [where cfg = bad_address_config and opts = example_options and w = example_world
        and e = ?e and d = example_did and schemaId = ?id and e' = ?e]
      pre tried pre' tried' c m
    by simp
qed

text \<open>
  Claim C10. With non-blank arguments and the contract address or the RPC URL not
  configured, \<open>getSchemaByDidAndSchemaId\<close> raises inside its \<open>try\<close> a
  \<open>SchemaCreationError\<close>, and the same error leaves the operation.
\<close>

theorem getSchema_unconfigured_raises_creation_error:
  assumes "\<not> blank d" and "\<not> blank schemaId"
    and "unset (schemaManagerContractAddress cfg) \<or> unset (cfg_rpcUrl cfg)"
  shows "fst (getSchemaByDidAndSchemaId_try w cfg d schemaId)
           = Inl (new_SchemaCreationError
                    ''schemaManagerContractAddress and rpcUrl must be defined and not empty'' None)
         \<and> fst (getSchemaByDidAndSchemaId w cfg d schemaId)
           = Inl (new_SchemaCreationError
                    ''schemaManagerContractAddress and rpcUrl must be defined and not empty'' None)
         \<and> cls_of (new_SchemaCreationError
                    ''schemaManagerContractAddress and rpcUrl must be defined and not empty'' None)
           = Some SchemaCreationError"
  using assms
  by (auto simp: getSchemaByDidAndSchemaId_def getSchemaByDidAndSchemaId_try_def
      getSchemaByDidAndSchemaId_catch_def new_SchemaCreationError_def)

theorem getSchema_unconfigured_witness:
  "fst (getSchemaByDidAndSchemaId_try example_world no_rpc_config example_did
          ''1b9d6bcd-bbfd-4b2d-9b5d-ab8dfbbd4bed'')
     = Inl (new_SchemaCreationError
              ''schemaManagerContractAddress and rpcUrl must be defined and not empty'' None)
   \<and> fst (getSchemaByDidAndSchemaId example_world no_rpc_config example_did
          ''1b9d6bcd-bbfd-4b2d-9b5d-ab8dfbbd4bed'')
     = Inl (new_SchemaCreationError
              ''schemaManagerContractAddress and rpcUrl must be defined and not empty'' None)
   \<and> cls_of (new_SchemaCreationError
              ''schemaManagerContractAddress and rpcUrl must be defined and not empty'' None)
     = Some SchemaCreationError"
proof -
  have a: "\<not> blank example_did"
    by (simp add: example_did_def blank_def trim_def js_whitespace_def)
  have b: "\<not> blank ''1b9d6bcd-bbfd-4b2d-9b5d-ab8dfbbd4bed''"
    by (simp add: blank_def trim_def js_whitespace_def)
  have c: "unset (schemaManagerContractAddress no_rpc_config) \<or> unset (cfg_rpcUrl no_rpc_config)"
    by (simp add: no_rpc_config_def example_config_def)
  show ?thesis
    using getSchema_unconfigured_raises_creation_error [OF a b c, of example_world] by simp
qed

lemma validateConfig_without_key:
  "signingKey config = None
   \<Longrightarrow> \<exists>c. validateConfig w config = Some c \<and> cls_of c = Some ValidationError"
  by (simp add: validateConfig_def new_ValidationError_def)

lemma getSchemaByDidAndSchemaId_try_never_returns:
  "isl (fst (getSchemaByDidAndSchemaId_try w cfg d schemaId))"
proof -
  obtain c where "validateConfig w \<lparr>contractAddress = setting (schemaManagerContractAddress cfg),
                   rpcUrl = setting (cfg_rpcUrl cfg), signingKey = None\<rparr> = Some c"
    using validateConfig_without_key
      [of "\<lparr>contractAddress = setting (schemaManagerContractAddress cfg),
            rpcUrl = setting (cfg_rpcUrl cfg), signingKey = None\<rparr>" w]
    by auto
  then show ?thesis
    by (simp add: getSchemaByDidAndSchemaId_try_def new_EthereumSchemaRegistry_def)
qed

lemma getSchemaByDidAndSchemaId_never_returns:
  "isl (fst (getSchemaByDidAndSchemaId w cfg d schemaId))"
  using getSchemaByDidAndSchemaId_try_never_returns [of w cfg d schemaId]
  by (cases "getSchemaByDidAndSchemaId_try w cfg d schemaId")
     (auto simp: getSchemaByDidAndSchemaId_def isl_def)


text \<open>
  Claim C2 fails on the code. With non-blank arguments and both settings configured,
  \<open>getSchemaByDidAndSchemaId\<close> builds the registry client without a signing key, the
  client's \<open>validateConfig\<close> rejects that, and the operation ends with a
  \<open>SchemaRetrievalError\<close> whose cause is the \<open>ValidationError\<close>: it never reads the
  contract, whether or not a schema is stored.
\<close>

theorem getSchemaByDidAndSchemaId_always_fails:
  assumes "\<not> blank d" and "\<not> blank schemaId"
    and "\<not> unset (schemaManagerContractAddress cfg)" and "\<not> unset (cfg_rpcUrl cfg)"
  shows "\<exists>m c. fst (getSchemaByDidAndSchemaId w cfg d schemaId)
                 = Inl (new_SchemaRetrievalError schemaId m (Some c))
               \<and> cls_of c = Some ValidationError"
proof -
  obtain c where c: "validateConfig w \<lparr>contractAddress = setting (schemaManagerContractAddress cfg),
                   rpcUrl = setting (cfg_rpcUrl cfg), signingKey = None\<rparr> = Some c"
    and cls: "cls_of c = Some ValidationError"
    using validateConfig_without_key
      [of "\<lparr>contractAddress = setting (schemaManagerContractAddress cfg),
            rpcUrl = setting (cfg_rpcUrl cfg), signingKey = None\<rparr>" w]
    by auto
  then have "fst (getSchemaByDidAndSchemaId_try w cfg d schemaId) = Inl c"
    using assms by (simp add: getSchemaByDidAndSchemaId_try_def new_EthereumSchemaRegistry_def)
  moreover have "\<not> instanceof_EthereumLedgerError c" "instanceof_Error c"
    using cls by (cases c; simp)+
  ultimately have "fst (getSchemaByDidAndSchemaId w cfg d schemaId)
      = Inl (new_SchemaRetrievalError schemaId (setting (message_of c)) (Some c))"
    using assms(1,2)
    by (cases "getSchemaByDidAndSchemaId_try w cfg d schemaId"; cases c)
       (simp_all add: getSchemaByDidAndSchemaId_def getSchemaByDidAndSchemaId_catch_def)
  with cls show ?thesis by blast
qed

theorem getSchemaByDidAndSchemaId_stored_schema_witness:
  "contract_schemas example_world ''0x70F88e12EaE54548839f320A5958C49421512A84''
     ''1b9d6bcd-bbfd-4b2d-9b5d-ab8dfbbd4bed'' = Inr ''{}''
   \<and> (\<exists>m c. fst (getSchemaByDidAndSchemaId example_world example_config example_did
                    ''1b9d6bcd-bbfd-4b2d-9b5d-ab8dfbbd4bed'')
               = Inl (new_SchemaRetrievalError ''1b9d6bcd-bbfd-4b2d-9b5d-ab8dfbbd4bed'' m (Some c))
             \<and> cls_of c = Some ValidationError)"
proof -
  have a: "\<not> blank example_did"
    by (simp add: example_did_def blank_def trim_def js_whitespace_def)
  have b: "\<not> blank ''1b9d6bcd-bbfd-4b2d-9b5d-ab8dfbbd4bed''"
    by (simp add: blank_def trim_def js_whitespace_def)
  have c: "\<not> unset (schemaManagerContractAddress example_config)"
    and d: "\<not> unset (cfg_rpcUrl example_config)"
    by (simp_all add: example_config_def)
  have stored: "contract_schemas example_world ''0x70F88e12EaE54548839f320A5958C49421512A84''
     ''1b9d6bcd-bbfd-4b2d-9b5d-ab8dfbbd4bed'' = Inr ''{}''"
    by (simp add: example_world_def)
  show ?thesis
    using getSchemaByDidAndSchemaId_always_fails [OF a b c d, of example_world] stored by simp
qed

lemma getSchemaByDidAndSchemaId_example:
  "fst (getSchemaByDidAndSchemaId example_world example_config example_did
          ''1b9d6bcd-bbfd-4b2d-9b5d-ab8dfbbd4bed'')
     = Inl (new_SchemaRetrievalError ''1b9d6bcd-bbfd-4b2d-9b5d-ab8dfbbd4bed''
              ''Signing Key is required'' (Some (new_ValidationError ''Signing Key is required'')))"
  by (simp add: getSchemaByDidAndSchemaId_def getSchemaByDidAndSchemaId_try_def
      getSchemaByDidAndSchemaId_catch_def example_world_def example_config_def example_did_def
      new_EthereumSchemaRegistry_def validateConfig_def blank_def trim_def js_whitespace_def
      new_ValidationError_def)

end
